theory Spec2Isabelle
  imports Main
begin

section \<open>Python values\<close>

text \<open>
  The handler of \<^verbatim>\<open>bridge_lambda.py\<close> receives an event that was decoded from JSON and
  answers with a dictionary. Both are Python values: \<^verbatim>\<open>None\<close>, booleans, integers,
  strings, lists and dictionaries with string keys. A dictionary is an association list in
  insertion order (the order \<^verbatim>\<open>json.dumps\<close> writes it in); a lookup takes the first
  entry of a key. A \<^typ>\<open>char\<close> stands for a code point below 256. Floating-point numbers
  are outside the embedding.
\<close>

datatype pyval =
    PNone
  | PBool bool
  | PInt int
  | PStr string
  | PList "pyval list"
  | PDict "(string \<times> pyval) list"

type_synonym pydict = "(string \<times> pyval) list"

text \<open>Truth value of a Python object, as \<^verbatim>\<open>not x\<close> and \<^verbatim>\<open>x or y\<close> test it.\<close>

fun truthy :: "pyval \<Rightarrow> bool" where
  "truthy PNone = False"
| "truthy (PBool b) = b"
| "truthy (PInt i) = (i \<noteq> 0)"
| "truthy (PStr s) = (s \<noteq> [])"
| "truthy (PList xs) = (xs \<noteq> [])"
| "truthy (PDict kvs) = (kvs \<noteq> [])"

text \<open>\<^verbatim>\<open>x or y\<close>: the left operand when it is truthy, the right one otherwise.\<close>

definition py_or :: "pyval \<Rightarrow> pyval \<Rightarrow> pyval" where
  "py_or x y = (if truthy x then x else y)"

text \<open>\<^verbatim>\<open>d.get(key, default)\<close>.\<close>

definition dict_get :: "pydict \<Rightarrow> string \<Rightarrow> pyval \<Rightarrow> pyval" where
  "dict_get d k dflt = (case map_of d k of None \<Rightarrow> dflt | Some v \<Rightarrow> v)"

section \<open>\<^verbatim>\<open>json.dumps\<close> with its default arguments\<close>

text \<open>
  With \<^verbatim>\<open>ensure_ascii=True\<close> a string is written between double quotes; the quote and the
  backslash are escaped with a backslash, newline, carriage return, tab, backspace and
  form feed have their short escapes, and every other code point outside the range from
  space to tilde is written as \<^verbatim>\<open>\u00xx\<close> with lowercase hexadecimal digits. The item
  separator is a comma and a space, the key separator a colon and a space.
\<close>

definition hex_digit :: "nat \<Rightarrow> char" where
  "hex_digit n = ''0123456789abcdef'' ! (n mod 16)"

definition escape_char :: "char \<Rightarrow> string" where
  "escape_char c =
     (if c = CHR 0x22 then [CHR 0x5C, CHR 0x22]
      else if c = CHR 0x5C then [CHR 0x5C, CHR 0x5C]
      else if c = CHR 0x0A then [CHR 0x5C, CHR ''n'']
      else if c = CHR 0x0D then [CHR 0x5C, CHR ''r'']
      else if c = CHR 0x09 then [CHR 0x5C, CHR ''t'']
      else if c = CHR 0x08 then [CHR 0x5C, CHR ''b'']
      else if c = CHR 0x0C then [CHR 0x5C, CHR ''f'']
      else if (of_char c :: nat) < 0x20 \<or> 0x7E < (of_char c :: nat)
        then [CHR 0x5C, CHR ''u'', CHR ''0'', CHR ''0'',
              hex_digit ((of_char c :: nat) div 16), hex_digit ((of_char c :: nat) mod 16)]
      else [c])"

definition encode_str :: "string \<Rightarrow> string" where
  "encode_str s = [CHR 0x22] @ concat (map escape_char s) @ [CHR 0x22]"

function str_nat :: "nat \<Rightarrow> string" where
  "str_nat n = (if n < 10 then [hex_digit n] else str_nat (n div 10) @ [hex_digit (n mod 10)])"
  by pat_completeness auto
termination
  by (relation "measure id") auto

definition str_int :: "int \<Rightarrow> string" where
  "str_int i = (if i < 0 then ''-'' @ str_nat (nat (- i)) else str_nat (nat i))"

fun json_dumps :: "pyval \<Rightarrow> string"
  and dumps_list :: "pyval list \<Rightarrow> string"
  and dumps_dict :: "pydict \<Rightarrow> string" where
  "json_dumps PNone = ''null''"
| "json_dumps (PBool b) = (if b then ''true'' else ''false'')"
| "json_dumps (PInt i) = str_int i"
| "json_dumps (PStr s) = encode_str s"
| "json_dumps (PList xs) = ''['' @ dumps_list xs @ '']''"
| "json_dumps (PDict kvs) = ''{'' @ dumps_dict kvs @ ''}''"
| "dumps_list [] = []"
| "dumps_list [x] = json_dumps x"
| "dumps_list (x # y # ys) = json_dumps x @ '', '' @ dumps_list (y # ys)"
| "dumps_dict [] = []"
| "dumps_dict [(k, v)] = encode_str k @ '': '' @ json_dumps v"
| "dumps_dict ((k, v) # kv # kvs) =
     encode_str k @ '': '' @ json_dumps v @ '', '' @ dumps_dict (kv # kvs)"

section \<open>The process, the queue client and the network\<close>

text \<open>
  Exceptions are values. \<^verbatim>\<open>ClientError\<close> carries the text \<^verbatim>\<open>str(e)\<close> of the
  provider's error, \<^verbatim>\<open>KeyError\<close> the missing key, and every other exception class is
  \<^verbatim>\<open>OtherException\<close> with its text. The class \<^verbatim>\<open>QueueError\<close> of the source is
  declared and never instantiated or raised, so no value here carries it: the failure of a
  send is the triple that \<^verbatim>\<open>send_to_sqs\<close> returns with its flag false.
\<close>

datatype exn =
    ClientError string
  | KeyError string
  | OtherException string

text \<open>
  The boto3 SQS client is the one external dependency: \<^verbatim>\<open>send_message\<close> takes the
  \<^verbatim>\<open>QueueUrl\<close> and the \<^verbatim>\<open>MessageBody\<close> and either returns the provider's response
  dictionary or raises.
\<close>

record sqs_client =
  send_message :: "string \<Rightarrow> string \<Rightarrow> exn + pydict"

text \<open>
  The network is the log of the requests handed to \<^verbatim>\<open>send_message\<close>, oldest first: one
  entry, the queue address and the message body, for each call.
\<close>

type_synonym network = "(string \<times> string) list"

text \<open>
  \<^verbatim>\<open>class Config\<close> is a frozen dataclass with one field. The default of the field is
  the expression \<^verbatim>\<open>os.environ.get('SQS_QUEUE_URL', '')\<close> in the class body, which Python
  evaluates when the class statement runs, that is when the module is imported. The
  process state therefore holds the environment and, apart from it, the default stored
  in the class.
\<close>

record Config =
  sqs_queue_url :: string

record process =
  environ :: "string \<rightharpoonup> string"
  Config_defaults :: Config

definition os_environ_get :: "(string \<rightharpoonup> string) \<Rightarrow> string \<Rightarrow> string \<Rightarrow> string" where
  "os_environ_get env k dflt = (case env k of None \<Rightarrow> dflt | Some v \<Rightarrow> v)"

text \<open>Importing the module in an environment runs the class statement.\<close>

definition import_module :: "(string \<rightharpoonup> string) \<Rightarrow> process" where
  "import_module env =
     \<lparr>environ = env,
      Config_defaults = \<lparr>sqs_queue_url = os_environ_get env ''SQS_QUEUE_URL'' ''''\<rparr>\<rparr>"

text \<open>\<^verbatim>\<open>Config()\<close>: no argument is given, every field takes the stored default.\<close>

definition Config_new :: "process \<Rightarrow> Config" where
  "Config_new p = Config_defaults p"

section \<open>The functions of \<^verbatim>\<open>bridge_lambda.py\<close>\<close>

definition parse_query_parameters :: "pydict \<Rightarrow> pyval" where
  "parse_query_parameters event =
     py_or (dict_get event ''queryStringParameters'' (PDict [])) (PDict [])"

text \<open>
  \<^verbatim>\<open>send_to_sqs\<close> returns a triple (success flag, message identifier, error text), or
  raises what its \<^verbatim>\<open>except ClientError\<close> clause does not catch. The request is logged
  on the network before the provider answers.
\<close>

definition send_to_sqs ::
  "sqs_client \<Rightarrow> string \<Rightarrow> pyval \<Rightarrow> network \<Rightarrow> (exn + bool \<times> pyval \<times> pyval) \<times> network" where
  "send_to_sqs client queue_url message net =
     (let message_body = json_dumps message;
          net' = net @ [(queue_url, message_body)]
      in case send_message client queue_url message_body of
           Inr response \<Rightarrow>
             (case map_of response ''MessageId'' of
                Some message_id \<Rightarrow> (Inr (True, message_id, PNone), net')
              | None \<Rightarrow> (Inl (KeyError ''MessageId''), net'))
         | Inl (ClientError e) \<Rightarrow>
             (Inr (False, PNone, PStr (''Failed to send message to SQS: '' @ e)), net')
         | Inl e \<Rightarrow> (Inl e, net'))"

definition send_to_sqs_temp ::
  "sqs_client \<Rightarrow> string \<Rightarrow> pyval \<Rightarrow> network \<Rightarrow> (exn + bool \<times> pyval \<times> pyval) \<times> network" where
  "send_to_sqs_temp client queue_url message net =
     (Inr (True, PStr ''MessageId'', PNone), net)"

definition create_response :: "int \<Rightarrow> pyval \<Rightarrow> pyval" where
  "create_response status_code body =
     PDict [(''statusCode'', PInt status_code),
            (''headers'', PDict [(''Content-Type'', PStr ''application/json'')]),
            (''body'', PStr (json_dumps body))]"

definition success_message :: string where
  "success_message = ''Weekly summary draft and MyChart message draft successfully requested. Please allow 10-15 seconds delay and move to Chart Review and look for the drafts.''"

text \<open>
  \<^verbatim>\<open>handler(event, context)\<close>. Its further inputs are the process state, the
  \<^verbatim>\<open>boto3.client\<close> factory (which may raise) and the network.
\<close>

definition handler ::
  "process \<Rightarrow> (string \<Rightarrow> exn + sqs_client) \<Rightarrow> pydict \<Rightarrow> 'ctx \<Rightarrow> network
     \<Rightarrow> (exn + pyval) \<times> network" where
  "handler p boto3_client event context net =
     (let config = Config_new p in
      if sqs_queue_url config = [] then
        (Inr (create_response 500
           (PDict [(''message'', PStr ''Missing SQS queue URL configuration'')])), net)
      else
        case boto3_client ''sqs'' of
          Inl e \<Rightarrow> (Inl e, net)
        | Inr client \<Rightarrow>
            (let query_params = parse_query_parameters event in
             (case send_to_sqs client (sqs_queue_url config) query_params net of
                (Inl e, net') \<Rightarrow> (Inl e, net')
              | (Inr (success, message_id, error), net') \<Rightarrow>
                  (if success then
                     (Inr (create_response 200
                        (PDict [(''message'', PStr success_message)])), net')
                   else
                     (Inr (create_response 500 (PDict [(''message'', error)])), net')))))"

section \<open>Example inputs\<close>

text \<open>
  Concrete environments, clients and events at which the theorems below are evaluated:
  an environment with and one without the queue address, a client whose provider accepts
  every message, one whose provider rejects every message with a \<^verbatim>\<open>ClientError\<close>, one
  that raises another exception, and one whose response carries no \<^verbatim>\<open>MessageId\<close>;
  a \<^verbatim>\<open>boto3.client\<close> factory that hands out a given client, and one that raises.
\<close>

definition env_unset :: "string \<rightharpoonup> string" where
  "env_unset = Map.empty"

definition env_queue :: "string \<rightharpoonup> string" where
  "env_queue = [''SQS_QUEUE_URL'' \<mapsto> ''https://sqs.example/bridge'']"

definition accepting_client :: sqs_client where
  "accepting_client = \<lparr>send_message = (\<lambda>queue_url message_body.
     Inr [(''MD5OfMessageBody'', PStr ''99914b932bd37a50b983c5e7c90ae93b''),
          (''MessageId'', PStr ''5fea7756-0ea4-451a-a703-a558b933e274'')])\<rparr>"

definition rejecting_client :: sqs_client where
  "rejecting_client = \<lparr>send_message = (\<lambda>queue_url message_body.
     Inl (ClientError ''An error occurred (AccessDenied) when calling the SendMessage operation: Access to the resource is denied.''))\<rparr>"

definition crashing_client :: sqs_client where
  "crashing_client = \<lparr>send_message = (\<lambda>queue_url message_body.
     Inl (OtherException ''Could not connect to the endpoint URL''))\<rparr>"

definition silent_client :: sqs_client where
  "silent_client = \<lparr>send_message = (\<lambda>queue_url message_body. Inr [])\<rparr>"

definition boto3_unavailable :: "string \<Rightarrow> exn + sqs_client" where
  "boto3_unavailable service = Inl (OtherException ''You must specify a region.'')"

definition boto3_with :: "sqs_client \<Rightarrow> string \<Rightarrow> exn + sqs_client" where
  "boto3_with client service =
     (if service = ''sqs'' then Inr client else Inl (OtherException ''Unknown service''))"

definition event_ab :: pydict where
  "event_ab = [(''httpMethod'', PStr ''GET''), (''path'', PStr ''/bridge''),
     (''queryStringParameters'', PDict [(''a'', PStr ''1''), (''b'', PStr ''2'')])]"

definition event_ab_post :: pydict where
  "event_ab_post = [(''queryStringParameters'', PDict [(''a'', PStr ''1''), (''b'', PStr ''2'')]),
     (''httpMethod'', PStr ''POST''), (''isBase64Encoded'', PBool True)]"

definition event_null :: pydict where
  "event_null = [(''httpMethod'', PStr ''GET''), (''queryStringParameters'', PNone)]"

text \<open>
  The state of a process whose module was imported in the environment \<open>env_import\<close> and
  whose environment is \<open>env_call\<close> by the time the handler is invoked (the program itself
  never writes \<^verbatim>\<open>os.environ\<close>; the host or a test harness may).
\<close>

definition process_at_call :: "(string \<rightharpoonup> string) \<Rightarrow> (string \<rightharpoonup> string) \<Rightarrow> process" where
  "process_at_call env_import env_call = (import_module env_import)\<lparr>environ := env_call\<rparr>"

section \<open>Evaluation lemmas\<close>

lemma json_dumps_message:
  "json_dumps (PDict [(''message'', PStr s)]) =
     [CHR ''{''] @ encode_str ''message'' @ '': '' @ encode_str s @ [CHR ''}'']"
  by simp

lemma config_error_body:
  \<open>json_dumps (PDict [(''message'', PStr ''Missing SQS queue URL configuration'')]) =
     ''{"message": "Missing SQS queue URL configuration"}''\<close>
  by (simp add: encode_str_def escape_char_def)

lemma Config_new_import:
  "sqs_queue_url (Config_new (import_module env)) = os_environ_get env ''SQS_QUEUE_URL'' ''''"
  by (simp add: Config_new_def import_module_def)

lemma success_body:
  \<open>json_dumps (PDict [(''message'', PStr success_message)]) =
     ''{"message": "Weekly summary draft and MyChart message draft successfully requested. Please allow 10-15 seconds delay and move to Chart Review and look for the drafts."}''\<close>
  by (simp add: success_message_def encode_str_def escape_char_def)

lemma send_to_sqs_network:
  "snd (send_to_sqs client queue_url message net) = net @ [(queue_url, json_dumps message)]"
  by (simp add: send_to_sqs_def Let_def split: sum.splits option.splits exn.splits)

lemma send_to_sqs_cases:
  "fst (send_to_sqs client queue_url message net) =
     (case send_message client queue_url (json_dumps message) of
        Inr response \<Rightarrow>
          (case map_of response ''MessageId'' of
             Some message_id \<Rightarrow> Inr (True, message_id, PNone)
           | None \<Rightarrow> Inl (KeyError ''MessageId''))
      | Inl (ClientError e) \<Rightarrow> Inr (False, PNone, PStr (''Failed to send message to SQS: '' @ e))
      | Inl e \<Rightarrow> Inl e)"
  by (simp add: send_to_sqs_def Let_def split: sum.splits option.splits exn.splits)

lemma send_to_sqs_failure_text:
  assumes "fst (send_to_sqs client queue_url message net) = Inr (False, message_id, error)"
  shows "\<exists>e. send_message client queue_url (json_dumps message) = Inl (ClientError e) \<and>
             message_id = PNone \<and> error = PStr (''Failed to send message to SQS: '' @ e)"
  using assms
  by (auto simp: send_to_sqs_cases split: sum.splits option.splits exn.splits)

lemma parse_query_parameters_lookup:
  "parse_query_parameters event =
     (case map_of event ''queryStringParameters'' of
        None \<Rightarrow> PDict []
      | Some v \<Rightarrow> if truthy v then v else PDict [])"
  by (simp add: parse_query_parameters_def dict_get_def py_or_def split: option.splits)

lemma handler_network:
  assumes "sqs_queue_url (Config_new p) \<noteq> []"
    and "boto3_client ''sqs'' = Inr client"
  shows "snd (handler p boto3_client event ctx net) =
     net @ [(sqs_queue_url (Config_new p), json_dumps (parse_query_parameters event))]"
proof -
  obtain r net' where s: "send_to_sqs client (sqs_queue_url (Config_new p))
      (parse_query_parameters event) net = (r, net')"
    by (cases "send_to_sqs client (sqs_queue_url (Config_new p))
      (parse_query_parameters event) net")
  then have "net' = net @ [(sqs_queue_url (Config_new p),
      json_dumps (parse_query_parameters event))]"
    using send_to_sqs_network [of client "sqs_queue_url (Config_new p)"
      "parse_query_parameters event" net] by simp
  with s assms show ?thesis
    by (simp add: handler_def Let_def split: sum.splits prod.splits)
qed

lemma handler_outcome:
  assumes "sqs_queue_url (Config_new p) \<noteq> []"
    and "boto3_client ''sqs'' = Inr client"
  shows "handler p boto3_client event ctx net =
     (case fst (send_to_sqs client (sqs_queue_url (Config_new p))
                  (parse_query_parameters event) net) of
        Inl x \<Rightarrow> Inl x
      | Inr (success, message_id, error) \<Rightarrow>
          if success then Inr (create_response 200 (PDict [(''message'', PStr success_message)]))
          else Inr (create_response 500 (PDict [(''message'', error)])),
      net @ [(sqs_queue_url (Config_new p), json_dumps (parse_query_parameters event))])"
proof -
  obtain r net' where s: "send_to_sqs client (sqs_queue_url (Config_new p))
      (parse_query_parameters event) net = (r, net')"
    by (cases "send_to_sqs client (sqs_queue_url (Config_new p))
      (parse_query_parameters event) net")
  then have n: "net' = net @ [(sqs_queue_url (Config_new p),
      json_dumps (parse_query_parameters event))]"
    using send_to_sqs_network [of client "sqs_queue_url (Config_new p)"
      "parse_query_parameters event" net] by simp
  from s assms show ?thesis
    unfolding n by (simp add: handler_def Let_def split: sum.splits prod.splits)
qed

lemma send_to_sqs_raises:
  "fst (send_to_sqs client queue_url message net) = Inl x \<longleftrightarrow>
     (send_message client queue_url (json_dumps message) = Inl x \<and> (\<forall>e. x \<noteq> ClientError e)) \<or>
     (\<exists>response. send_message client queue_url (json_dumps message) = Inr response \<and>
        map_of response ''MessageId'' = None \<and> x = KeyError ''MessageId'')"
  by (auto simp: send_to_sqs_cases split: sum.splits option.splits exn.splits)

lemma queue_configured:
  "sqs_queue_url (Config_new (import_module env_queue)) = ''https://sqs.example/bridge''"
  by (simp add: Config_new_import os_environ_get_def env_queue_def)

lemma parse_event_ab:
  "parse_query_parameters event_ab = PDict [(''a'', PStr ''1''), (''b'', PStr ''2'')]"
  by (simp add: parse_query_parameters_def dict_get_def py_or_def event_ab_def)

lemma dumps_ab:
  \<open>json_dumps (PDict [(''a'', PStr ''1''), (''b'', PStr ''2'')]) = ''{"a": "1", "b": "2"}''\<close>
  by (simp add: encode_str_def escape_char_def)

section \<open>The JSON text of a string determines the string\<close>

lemma hex_digit_inj:
  assumes "m < 16" "n < 16" "hex_digit m = hex_digit n"
  shows "m = n"
proof -
  have d: "distinct ''0123456789abcdef''" by simp
  have l: "length ''0123456789abcdef'' = 16" by simp
  from assms have "''0123456789abcdef'' ! m = ''0123456789abcdef'' ! n"
    by (simp add: hex_digit_def)
  with d l assms(1,2) show ?thesis
    by (metis nth_eq_iff_index_eq)
qed

lemma of_char_split:
  assumes "(of_char c :: nat) div 16 = of_char d div 16"
    and "(of_char c :: nat) mod 16 = of_char d mod 16"
  shows "c = d"
proof -
  have "(of_char c :: nat) = of_char d"
    using assms by (metis div_mult_mod_eq)
  then show ?thesis by simp
qed

lemma of_char_div16: "(of_char c :: nat) div 16 < 16"
proof -
  have "(of_char c :: nat) < 16 * 16" by simp
  then show ?thesis by (rule less_mult_imp_div_less)
qed

lemma escape_char_prefix_free:
  assumes "escape_char c @ xs = escape_char d @ ys"
  shows "c = d \<and> xs = ys"
proof -
  have h: "hex_digit ((of_char c :: nat) div 16) = hex_digit (of_char d div 16) \<Longrightarrow>
     hex_digit ((of_char c :: nat) mod 16) = hex_digit (of_char d mod 16) \<Longrightarrow> c = d"
    by (metis hex_digit_inj of_char_div16 of_char_split mod_less_divisor zero_less_numeral)
  from assms show ?thesis
    unfolding escape_char_def
    by (auto split: if_splits dest: h)
qed

lemma escape_char_not_quote:
  "\<exists>h t. escape_char c = h # t \<and> h \<noteq> CHR 0x22"
  by (simp add: escape_char_def)

lemma escaped_inj:
  assumes "concat (map escape_char a) @ [CHR 0x22] = concat (map escape_char b) @ [CHR 0x22]"
  shows "a = b"
  using assms
proof (induction a arbitrary: b)
  case Nil
  show ?case
  proof (cases b)
    case Nil
    then show ?thesis by simp
  next
    case (Cons d ds)
    obtain h t where "escape_char d = h # t" "h \<noteq> CHR 0x22"
      using escape_char_not_quote by blast
    with Nil.prems Cons show ?thesis by simp
  qed
next
  case (Cons c cs)
  show ?case
  proof (cases b)
    case Nil
    obtain h t where "escape_char c = h # t" "h \<noteq> CHR 0x22"
      using escape_char_not_quote by blast
    with Cons.prems Nil show ?thesis by simp
  next
    case b: (Cons d ds)
    with Cons.prems have "escape_char c @ (concat (map escape_char cs) @ [CHR 0x22]) =
        escape_char d @ (concat (map escape_char ds) @ [CHR 0x22])"
      by simp
    then have "c = d" and "concat (map escape_char cs) @ [CHR 0x22] =
        concat (map escape_char ds) @ [CHR 0x22]"
      using escape_char_prefix_free by blast+
    with Cons.IH b show ?thesis by simp
  qed
qed

lemma encode_str_inj: "encode_str a = encode_str b \<Longrightarrow> a = b"
  by (simp add: encode_str_def escaped_inj)

lemma json_message_inj:
  assumes "json_dumps (PDict [(''message'', PStr a)]) = json_dumps (PDict [(''message'', PStr b)])"
  shows "a = b"
proof -
  from assms have "encode_str a = encode_str b"
    by simp
  then show ?thesis by (rule encode_str_inj)
qed

section \<open>Missing configuration\<close>

text \<open>
  C1. When the configured queue address is empty (the variable was unset or empty when
  the configuration default was computed), \<^verbatim>\<open>handler\<close> returns status 500 with the body
  \<^verbatim>\<open>{"message": "Missing SQS queue URL configuration"}\<close>, for every event, context and
  client factory, and the network is left as it was: no send is attempted.
\<close>

theorem handler_missing_queue_url:
  assumes "sqs_queue_url (Config_new p) = []"
  shows \<open>handler p boto3_client event ctx net =
     (Inr (PDict [(''statusCode'', PInt 500),
                  (''headers'', PDict [(''Content-Type'', PStr ''application/json'')]),
                  (''body'', PStr ''{"message": "Missing SQS queue URL configuration"}'')]),
      net)\<close>
  using assms unfolding handler_def create_response_def config_error_body
  by simp

theorem handler_missing_queue_url_witness:
  \<open>sqs_queue_url (Config_new (import_module Map.empty)) = [] \<and>
   handler (import_module Map.empty) (\<lambda>s. Inl (OtherException ''unused''))
       [(''queryStringParameters'', PDict [(''a'', PStr ''1'')])] () [] =
     (Inr (PDict [(''statusCode'', PInt 500),
                  (''headers'', PDict [(''Content-Type'', PStr ''application/json'')]),
                  (''body'', PStr ''{"message": "Missing SQS queue URL configuration"}'')]),
      [])\<close>
proof -
  have h: "sqs_queue_url (Config_new (import_module Map.empty)) = []"
    by (simp add: Config_new_import os_environ_get_def)
  show ?thesis
    using h handler_missing_queue_url [OF h] by simp
qed

section \<open>Outcome of the send\<close>

text \<open>
  C2. When the queue address is not empty and \<^verbatim>\<open>send_message\<close> raises a
  \<^verbatim>\<open>ClientError\<close> whose text is \<open>e\<close>, \<^verbatim>\<open>handler\<close> returns status 500 and a body that
  is the JSON text of \<^verbatim>\<open>{"message": "Failed to send message to SQS: " + e}\<close>, for every
  event; that body encodes no other message. The one request is on the network.
\<close>

theorem handler_send_failure:
  assumes "sqs_queue_url (Config_new p) \<noteq> []"
    and "boto3_client ''sqs'' = Inr client"
    and "send_message client (sqs_queue_url (Config_new p))
           (json_dumps (parse_query_parameters event)) = Inl (ClientError e)"
  shows "handler p boto3_client event ctx net =
     (Inr (PDict [(''statusCode'', PInt 500),
                  (''headers'', PDict [(''Content-Type'', PStr ''application/json'')]),
                  (''body'', PStr (json_dumps
                     (PDict [(''message'', PStr (''Failed to send message to SQS: '' @ e))])))]),
      net @ [(sqs_queue_url (Config_new p), json_dumps (parse_query_parameters event))]) \<and>
    (\<forall>message. json_dumps (PDict [(''message'', PStr message)]) =
         json_dumps (PDict [(''message'', PStr (''Failed to send message to SQS: '' @ e))]) \<longrightarrow>
       message = ''Failed to send message to SQS: '' @ e)"
  using assms json_message_inj
  by (simp add: handler_def send_to_sqs_def create_response_def Let_def del: json_dumps.simps)

theorem handler_send_failure_witness:
  \<open>sqs_queue_url (Config_new (import_module env_queue)) \<noteq> [] \<and>
   boto3_with rejecting_client ''sqs'' = Inr rejecting_client \<and>
   send_message rejecting_client (sqs_queue_url (Config_new (import_module env_queue)))
     (json_dumps (parse_query_parameters event_ab)) =
     Inl (ClientError ''An error occurred (AccessDenied) when calling the SendMessage operation: Access to the resource is denied.'') \<and>
   handler (import_module env_queue) (boto3_with rejecting_client) event_ab () [] =
     (Inr (PDict [(''statusCode'', PInt 500),
                  (''headers'', PDict [(''Content-Type'', PStr ''application/json'')]),
                  (''body'', PStr ''{"message": "Failed to send message to SQS: An error occurred (AccessDenied) when calling the SendMessage operation: Access to the resource is denied."}'')]),
      [(''https://sqs.example/bridge'', ''{"a": "1", "b": "2"}'')])\<close>
proof -
  have h1: "sqs_queue_url (Config_new (import_module env_queue)) \<noteq> []"
    by (simp add: queue_configured)
  have h2: "boto3_with rejecting_client ''sqs'' = Inr rejecting_client"
    by (simp add: boto3_with_def)
  have h3: "send_message rejecting_client (sqs_queue_url (Config_new (import_module env_queue)))
     (json_dumps (parse_query_parameters event_ab)) =
     Inl (ClientError ''An error occurred (AccessDenied) when calling the SendMessage operation: Access to the resource is denied.'')"
    by (simp add: rejecting_client_def)
  have body: \<open>json_dumps (PDict [(''message'', PStr (''Failed to send message to SQS: '' @ ''An error occurred (AccessDenied) when calling the SendMessage operation: Access to the resource is denied.''))]) = ''{"message": "Failed to send message to SQS: An error occurred (AccessDenied) when calling the SendMessage operation: Access to the resource is denied."}''\<close>
    by (simp add: encode_str_def escape_char_def)
  show ?thesis
    using h1 h2 h3 handler_send_failure [where boto3_client = "boto3_with rejecting_client"
        and ctx = "()" and net = "[]", OF h1 h2 h3]
    unfolding body queue_configured parse_event_ab dumps_ab by simp
qed

text \<open>
  C3. When the queue address is not empty and \<^verbatim>\<open>send_to_sqs\<close> reports success,
  \<^verbatim>\<open>handler\<close> returns status 200 with one fixed body, the success message, whatever the
  event and its query parameters are.
\<close>

theorem handler_send_success:
  assumes "sqs_queue_url (Config_new p) \<noteq> []"
    and "boto3_client ''sqs'' = Inr client"
    and "fst (send_to_sqs client (sqs_queue_url (Config_new p))
           (parse_query_parameters event) net) = Inr (True, message_id, error)"
  shows \<open>fst (handler p boto3_client event ctx net) =
     Inr (PDict [(''statusCode'', PInt 200),
                  (''headers'', PDict [(''Content-Type'', PStr ''application/json'')]),
                  (''body'', PStr ''{"message": "Weekly summary draft and MyChart message draft successfully requested. Please allow 10-15 seconds delay and move to Chart Review and look for the drafts."}'')])\<close>
proof -
  obtain net' where "send_to_sqs client (sqs_queue_url (Config_new p))
           (parse_query_parameters event) net = (Inr (True, message_id, error), net')"
    using assms(3) by (cases "send_to_sqs client (sqs_queue_url (Config_new p))
           (parse_query_parameters event) net") simp
  with assms(1,2) show ?thesis
    unfolding handler_def create_response_def success_body Let_def by simp
qed

theorem handler_send_success_witness:
  \<open>sqs_queue_url (Config_new (import_module env_queue)) \<noteq> [] \<and>
   boto3_with accepting_client ''sqs'' = Inr accepting_client \<and>
   fst (send_to_sqs accepting_client (sqs_queue_url (Config_new (import_module env_queue)))
          (parse_query_parameters event_ab) []) =
     Inr (True, PStr ''5fea7756-0ea4-451a-a703-a558b933e274'', PNone) \<and>
   fst (handler (import_module env_queue) (boto3_with accepting_client) event_ab () []) =
     Inr (PDict [(''statusCode'', PInt 200),
                  (''headers'', PDict [(''Content-Type'', PStr ''application/json'')]),
                  (''body'', PStr ''{"message": "Weekly summary draft and MyChart message draft successfully requested. Please allow 10-15 seconds delay and move to Chart Review and look for the drafts."}'')])\<close>
proof -
  have h1: "sqs_queue_url (Config_new (import_module env_queue)) \<noteq> []"
    by (simp add: queue_configured)
  have h2: "boto3_with accepting_client ''sqs'' = Inr accepting_client"
    by (simp add: boto3_with_def)
  have h3: "fst (send_to_sqs accepting_client (sqs_queue_url (Config_new (import_module env_queue)))
          (parse_query_parameters event_ab) []) =
     Inr (True, PStr ''5fea7756-0ea4-451a-a703-a558b933e274'', PNone)"
    by (simp add: send_to_sqs_cases accepting_client_def)
  show ?thesis
    using h1 h2 h3 handler_send_success [where boto3_client = "boto3_with accepting_client"
        and ctx = "()", OF h1 h2 h3] by simp
qed

section \<open>The forwarded payload\<close>

text \<open>
  C4. For every event whose \<^verbatim>\<open>queryStringParameters\<close> entry is missing or is the empty
  dictionary, the payload is the empty dictionary, its serialised text is \<^verbatim>\<open>{}\<close>, and
  that text is what \<^verbatim>\<open>handler\<close> hands to the queue.
\<close>

theorem empty_query_parameters_payload:
  assumes "map_of event ''queryStringParameters'' = None \<or>
           map_of event ''queryStringParameters'' = Some (PDict [])"
  shows "parse_query_parameters event = PDict [] \<and>
         json_dumps (parse_query_parameters event) = ''{}'' \<and>
         (sqs_queue_url (Config_new p) \<noteq> [] \<longrightarrow> boto3_client ''sqs'' = Inr client \<longrightarrow>
            snd (handler p boto3_client event ctx net) =
              net @ [(sqs_queue_url (Config_new p), ''{}'')])"
proof -
  from assms have e: "parse_query_parameters event = PDict []"
    by (auto simp: parse_query_parameters_lookup)
  then show ?thesis
    by (simp add: handler_network)
qed

theorem empty_query_parameters_payload_witness:
  "map_of ([] :: pydict) ''queryStringParameters'' = None \<and>
   parse_query_parameters [] = PDict [] \<and>
   json_dumps (parse_query_parameters []) = ''{}'' \<and>
   snd (handler (import_module env_queue) (boto3_with accepting_client) [] () []) =
     [(''https://sqs.example/bridge'', ''{}'')]"
proof -
  have h: "map_of ([] :: pydict) ''queryStringParameters'' = None \<or>
           map_of ([] :: pydict) ''queryStringParameters'' = Some (PDict [])"
    by simp
  have b: "boto3_with accepting_client ''sqs'' = Inr accepting_client"
    by (simp add: boto3_with_def)
  show ?thesis
    using empty_query_parameters_payload [where boto3_client = "boto3_with accepting_client"
        and p = "import_module env_queue" and client = accepting_client and ctx = "()"
        and net = "[]", OF h] b
    by (simp add: queue_configured)
qed

section \<open>When the configuration is read\<close>

text \<open>
  C5, as stated: the address \<^verbatim>\<open>handler\<close> uses is the value of the environment variable
  at the time of the call. It is not: the default of the field was computed when the class
  statement ran. In a process whose module was imported with the variable unset and whose
  environment holds the address by the time of the call, the configuration is still empty
  and \<^verbatim>\<open>handler\<close> answers 500 without sending.
\<close>

theorem config_read_per_call_counterexample:
  \<open>os_environ_get (environ (process_at_call env_unset env_queue)) ''SQS_QUEUE_URL'' '''' =
     ''https://sqs.example/bridge'' \<and>
   sqs_queue_url (Config_new (process_at_call env_unset env_queue)) \<noteq>
     os_environ_get (environ (process_at_call env_unset env_queue)) ''SQS_QUEUE_URL'' '''' \<and>
   handler (process_at_call env_unset env_queue) (boto3_with accepting_client) event_ab () [] =
     (Inr (PDict [(''statusCode'', PInt 500),
                  (''headers'', PDict [(''Content-Type'', PStr ''application/json'')]),
                  (''body'', PStr ''{"message": "Missing SQS queue URL configuration"}'')]),
      [])\<close>
proof -
  have c: "sqs_queue_url (Config_new (process_at_call env_unset env_queue)) = []"
    by (simp add: process_at_call_def Config_new_def import_module_def os_environ_get_def
        env_unset_def)
  have e: "os_environ_get (environ (process_at_call env_unset env_queue)) ''SQS_QUEUE_URL'' '''' =
     ''https://sqs.example/bridge''"
    by (simp add: process_at_call_def os_environ_get_def env_queue_def)
  show ?thesis
    unfolding e c handler_def create_response_def config_error_body
    by (simp add: c)
qed

text \<open>
  C5, amended: the address \<^verbatim>\<open>handler\<close> uses is the value the environment variable had
  when the module was imported (the empty string if it was unset then), whatever the
  environment is at the time of the call; every invocation in the process behaves as if
  the environment had not changed since the import.
\<close>

theorem config_read_at_import:
  "sqs_queue_url (Config_new (process_at_call env_import env_call)) =
     os_environ_get env_import ''SQS_QUEUE_URL'' '''' \<and>
   handler (process_at_call env_import env_call) boto3_client event ctx net =
     handler (import_module env_import) boto3_client event ctx net"
  by (simp add: process_at_call_def Config_new_def import_module_def handler_def)

section \<open>Shape of the response\<close>

text \<open>
  C6. Every response that \<^verbatim>\<open>handler\<close> returns, on whichever path, is a dictionary with
  an integer \<^verbatim>\<open>statusCode\<close> (200 or 500), \<^verbatim>\<open>headers\<close> equal to
  \<^verbatim>\<open>{"Content-Type": "application/json"}\<close>, and a \<^verbatim>\<open>body\<close> that is the JSON text of a
  dictionary with the single key \<^verbatim>\<open>message\<close> bound to a string.
\<close>

theorem handler_response_shape:
  assumes "fst (handler p boto3_client event ctx net) = Inr response"
  shows "\<exists>status_code message.
           (status_code = 200 \<or> status_code = 500) \<and>
           response = PDict [(''statusCode'', PInt status_code),
                             (''headers'', PDict [(''Content-Type'', PStr ''application/json'')]),
                             (''body'', PStr (json_dumps (PDict [(''message'', PStr message)])))]"
proof (cases "sqs_queue_url (Config_new p) = []")
  case True
  with assms have "response = create_response 500
      (PDict [(''message'', PStr ''Missing SQS queue URL configuration'')])"
    by (simp add: handler_def)
  then show ?thesis
    unfolding create_response_def by blast
next
  case False
  show ?thesis
  proof (cases "boto3_client ''sqs''")
    case (Inl e)
    with False assms show ?thesis
      by (simp add: handler_def)
  next
    case (Inr client)
    obtain r net' where s: "send_to_sqs client (sqs_queue_url (Config_new p))
        (parse_query_parameters event) net = (r, net')"
      by (cases "send_to_sqs client (sqs_queue_url (Config_new p))
        (parse_query_parameters event) net")
    show ?thesis
    proof (cases r)
      case (Inl e)
      with False Inr s assms show ?thesis
        by (simp add: handler_def)
    next
      case r: (Inr t)
      obtain success message_id error where t: "t = (success, message_id, error)"
        by (cases t)
      show ?thesis
      proof (cases success)
        case True
        with False Inr s r t assms have "response = create_response 200
            (PDict [(''message'', PStr success_message)])"
          by (simp add: handler_def)
        then show ?thesis
          unfolding create_response_def by blast
      next
        case f: False
        from s r t f have "fst (send_to_sqs client (sqs_queue_url (Config_new p))
            (parse_query_parameters event) net) = Inr (False, message_id, error)"
          by simp
        from send_to_sqs_failure_text [OF this]
        obtain e where "error = PStr (''Failed to send message to SQS: '' @ e)"
          by blast
        moreover from False Inr s r t f assms have "response = create_response 500
            (PDict [(''message'', error)])"
          by (simp add: handler_def)
        ultimately show ?thesis
          unfolding create_response_def by blast
      qed
    qed
  qed
qed

theorem handler_response_shape_witness:
  \<open>fst (handler (import_module env_queue) (boto3_with accepting_client) event_ab () []) =
     Inr (PDict [(''statusCode'', PInt 200),
                 (''headers'', PDict [(''Content-Type'', PStr ''application/json'')]),
                 (''body'', PStr (json_dumps (PDict [(''message'', PStr success_message)])))]) \<and>
   (\<exists>status_code message.
      (status_code = 200 \<or> status_code = 500) \<and>
      PDict [(''statusCode'', PInt 200),
             (''headers'', PDict [(''Content-Type'', PStr ''application/json'')]),
             (''body'', PStr (json_dumps (PDict [(''message'', PStr success_message)])))] =
      PDict [(''statusCode'', PInt status_code),
             (''headers'', PDict [(''Content-Type'', PStr ''application/json'')]),
             (''body'', PStr (json_dumps (PDict [(''message'', PStr message)])))])\<close>
proof -
  have h: "fst (handler (import_module env_queue) (boto3_with accepting_client) event_ab () []) =
     Inr (PDict [(''statusCode'', PInt 200),
                 (''headers'', PDict [(''Content-Type'', PStr ''application/json'')]),
                 (''body'', PStr (json_dumps (PDict [(''message'', PStr success_message)])))])"
    by (simp add: handler_def queue_configured boto3_with_def send_to_sqs_def
        accepting_client_def create_response_def Let_def del: json_dumps.simps)
  from handler_response_shape [OF h] h show ?thesis
    by (rule_tac conjI)
qed

section \<open>Failures of the send\<close>

text \<open>
  C7. \<^verbatim>\<open>send_to_sqs\<close> returns its failure outcome (success flag false) exactly when
  \<^verbatim>\<open>send_message\<close> raises a \<^verbatim>\<open>ClientError\<close>, and it makes exactly one request,
  whatever the outcome. Nothing else is caught. An exception of any other class raised by
  \<^verbatim>\<open>send_message\<close> leaves \<^verbatim>\<open>send_to_sqs\<close>, and so does the \<^verbatim>\<open>KeyError\<close> of a
  response without \<^verbatim>\<open>MessageId\<close>; these are the only exceptions of \<^verbatim>\<open>send_to_sqs\<close>.
  Every exception of \<^verbatim>\<open>send_to_sqs\<close> leaves \<^verbatim>\<open>handler\<close> after that one request, and
  an exception of \<^verbatim>\<open>boto3.client\<close> leaves \<^verbatim>\<open>handler\<close> before any request.
\<close>

theorem send_to_sqs_failure_iff_client_error:
  "((\<exists>message_id error.
        fst (send_to_sqs client queue_url message net) = Inr (False, message_id, error)) \<longleftrightarrow>
    (\<exists>e. send_message client queue_url (json_dumps message) = Inl (ClientError e))) \<and>
   snd (send_to_sqs client queue_url message net) = net @ [(queue_url, json_dumps message)] \<and>
   (\<forall>x. send_message client queue_url (json_dumps message) = Inl x \<longrightarrow>
        (\<forall>e. x \<noteq> ClientError e) \<longrightarrow>
        fst (send_to_sqs client queue_url message net) = Inl x) \<and>
   (\<forall>response. send_message client queue_url (json_dumps message) = Inr response \<longrightarrow>
        map_of response ''MessageId'' = None \<longrightarrow>
        fst (send_to_sqs client queue_url message net) = Inl (KeyError ''MessageId'')) \<and>
   (\<forall>x. fst (send_to_sqs client queue_url message net) = Inl x \<longrightarrow>
        (send_message client queue_url (json_dumps message) = Inl x \<and>
           (\<forall>e. x \<noteq> ClientError e)) \<or>
        (\<exists>response. send_message client queue_url (json_dumps message) = Inr response \<and>
           map_of response ''MessageId'' = None \<and> x = KeyError ''MessageId'')) \<and>
   (\<forall>x. sqs_queue_url (Config_new p) \<noteq> [] \<longrightarrow> boto3_client ''sqs'' = Inr client \<longrightarrow>
        send_message client (sqs_queue_url (Config_new p))
          (json_dumps (parse_query_parameters event)) = Inl x \<longrightarrow>
        (\<forall>e. x \<noteq> ClientError e) \<longrightarrow>
        handler p boto3_client event ctx net =
          (Inl x, net @ [(sqs_queue_url (Config_new p),
                          json_dumps (parse_query_parameters event))])) \<and>
   (\<forall>x. sqs_queue_url (Config_new p) \<noteq> [] \<longrightarrow> boto3_client ''sqs'' = Inr client \<longrightarrow>
        fst (send_to_sqs client (sqs_queue_url (Config_new p))
               (parse_query_parameters event) net) = Inl x \<longrightarrow>
        handler p boto3_client event ctx net =
          (Inl x, net @ [(sqs_queue_url (Config_new p),
                          json_dumps (parse_query_parameters event))])) \<and>
   (\<forall>x. sqs_queue_url (Config_new p) \<noteq> [] \<longrightarrow> boto3_client ''sqs'' = Inl x \<longrightarrow>
        handler p boto3_client event ctx net = (Inl x, net))"
proof (intro conjI allI impI)
  show "(\<exists>message_id error.
        fst (send_to_sqs client queue_url message net) = Inr (False, message_id, error)) \<longleftrightarrow>
    (\<exists>e. send_message client queue_url (json_dumps message) = Inl (ClientError e))"
  proof
    assume "\<exists>message_id error.
        fst (send_to_sqs client queue_url message net) = Inr (False, message_id, error)"
    then show "\<exists>e. send_message client queue_url (json_dumps message) = Inl (ClientError e)"
      using send_to_sqs_failure_text by blast
  next
    assume "\<exists>e. send_message client queue_url (json_dumps message) = Inl (ClientError e)"
    then show "\<exists>message_id error.
        fst (send_to_sqs client queue_url message net) = Inr (False, message_id, error)"
      by (auto simp: send_to_sqs_cases)
  qed
next
  show "snd (send_to_sqs client queue_url message net) = net @ [(queue_url, json_dumps message)]"
    by (rule send_to_sqs_network)
next
  fix x
  assume "send_message client queue_url (json_dumps message) = Inl x" "\<forall>e. x \<noteq> ClientError e"
  then show "fst (send_to_sqs client queue_url message net) = Inl x"
    by (simp add: send_to_sqs_raises)
next
  fix response
  assume "send_message client queue_url (json_dumps message) = Inr response"
    "map_of response ''MessageId'' = None"
  then show "fst (send_to_sqs client queue_url message net) = Inl (KeyError ''MessageId'')"
    by (simp add: send_to_sqs_raises)
next
  fix x
  assume "fst (send_to_sqs client queue_url message net) = Inl x"
  then show "(send_message client queue_url (json_dumps message) = Inl x \<and>
           (\<forall>e. x \<noteq> ClientError e)) \<or>
        (\<exists>response. send_message client queue_url (json_dumps message) = Inr response \<and>
           map_of response ''MessageId'' = None \<and> x = KeyError ''MessageId'')"
    by (simp only: send_to_sqs_raises)
next
  fix x
  assume url: "sqs_queue_url (Config_new p) \<noteq> []"
    and bc: "boto3_client ''sqs'' = Inr client"
    and sm: "send_message client (sqs_queue_url (Config_new p))
          (json_dumps (parse_query_parameters event)) = Inl x"
    and nx: "\<forall>e. x \<noteq> ClientError e"
  from sm nx have "fst (send_to_sqs client (sqs_queue_url (Config_new p))
      (parse_query_parameters event) net) = Inl x"
    by (simp add: send_to_sqs_raises)
  then show "handler p boto3_client event ctx net =
          (Inl x, net @ [(sqs_queue_url (Config_new p),
                          json_dumps (parse_query_parameters event))])"
    by (simp add: handler_outcome [where boto3_client = boto3_client, OF url bc])
next
  fix x
  assume url: "sqs_queue_url (Config_new p) \<noteq> []"
    and bc: "boto3_client ''sqs'' = Inr client"
    and "fst (send_to_sqs client (sqs_queue_url (Config_new p))
               (parse_query_parameters event) net) = Inl x"
  then show "handler p boto3_client event ctx net =
          (Inl x, net @ [(sqs_queue_url (Config_new p),
                          json_dumps (parse_query_parameters event))])"
    by (simp add: handler_outcome [where boto3_client = boto3_client, OF url bc])
next
  fix x
  assume "sqs_queue_url (Config_new p) \<noteq> []" "boto3_client ''sqs'' = Inl x"
  then show "handler p boto3_client event ctx net = (Inl x, net)"
    by (simp add: handler_def)
qed

theorem send_to_sqs_failure_iff_client_error_witness:
  \<open>sqs_queue_url (Config_new (import_module env_queue)) \<noteq> [] \<and>
   boto3_with crashing_client ''sqs'' = Inr crashing_client \<and>
   send_message crashing_client (sqs_queue_url (Config_new (import_module env_queue)))
     (json_dumps (parse_query_parameters event_ab)) =
     Inl (OtherException ''Could not connect to the endpoint URL'') \<and>
   handler (import_module env_queue) (boto3_with crashing_client) event_ab () [] =
     (Inl (OtherException ''Could not connect to the endpoint URL''),
      [(''https://sqs.example/bridge'', ''{"a": "1", "b": "2"}'')]) \<and>
   fst (send_to_sqs crashing_client ''https://sqs.example/bridge''
          (PDict [(''a'', PStr ''1''), (''b'', PStr ''2'')]) []) =
     Inl (OtherException ''Could not connect to the endpoint URL'') \<and>
   snd (send_to_sqs crashing_client ''https://sqs.example/bridge''
          (PDict [(''a'', PStr ''1''), (''b'', PStr ''2'')]) []) =
     [(''https://sqs.example/bridge'', ''{"a": "1", "b": "2"}'')] \<and>
   boto3_with silent_client ''sqs'' = Inr silent_client \<and>
   send_message silent_client ''https://sqs.example/bridge'' ''{"a": "1", "b": "2"}'' = Inr [] \<and>
   map_of ([] :: pydict) ''MessageId'' = None \<and>
   fst (send_to_sqs silent_client ''https://sqs.example/bridge''
          (PDict [(''a'', PStr ''1''), (''b'', PStr ''2'')]) []) = Inl (KeyError ''MessageId'') \<and>
   handler (import_module env_queue) (boto3_with silent_client) event_ab () [] =
     (Inl (KeyError ''MessageId''),
      [(''https://sqs.example/bridge'', ''{"a": "1", "b": "2"}'')]) \<and>
   boto3_unavailable ''sqs'' = Inl (OtherException ''You must specify a region.'') \<and>
   handler (import_module env_queue) boto3_unavailable event_ab () [] =
     (Inl (OtherException ''You must specify a region.''), [])\<close>
proof -
  let ?url = "sqs_queue_url (Config_new (import_module env_queue))"
  let ?msg = "parse_query_parameters event_ab"
  have h1: "?url \<noteq> []"
    by (simp add: queue_configured)
  have h2: "boto3_with crashing_client ''sqs'' = Inr crashing_client"
    by (simp add: boto3_with_def)
  have h3: "send_message crashing_client ?url (json_dumps ?msg) =
     Inl (OtherException ''Could not connect to the endpoint URL'')"
    by (simp add: crashing_client_def)
  have h4: "OtherException ''Could not connect to the endpoint URL'' \<noteq> ClientError e" for e
    by simp
  note t = send_to_sqs_failure_iff_client_error [where client = crashing_client
      and queue_url = ?url and message = ?msg
      and p = "import_module env_queue" and boto3_client = "boto3_with crashing_client"
      and event = event_ab and ctx = "()" and net = "[]"]
  note a = t [THEN conjunct2, THEN conjunct2, THEN conjunct1, rule_format, OF h3 h4]
  note b = t [THEN conjunct2, THEN conjunct1]
  note c = t [THEN conjunct2, THEN conjunct2, THEN conjunct2, THEN conjunct2, THEN conjunct2,
      THEN conjunct1, rule_format, OF h1 h2 h3 h4]
  have s2: "boto3_with silent_client ''sqs'' = Inr silent_client"
    by (simp add: boto3_with_def)
  have s3: "send_message silent_client ?url (json_dumps ?msg) = Inr []"
    by (simp add: silent_client_def)
  have s4: "map_of ([] :: pydict) ''MessageId'' = None"
    by simp
  note u = send_to_sqs_failure_iff_client_error [where client = silent_client
      and queue_url = ?url and message = ?msg
      and p = "import_module env_queue" and boto3_client = "boto3_with silent_client"
      and event = event_ab and ctx = "()" and net = "[]"]
  note d = u [THEN conjunct2, THEN conjunct2, THEN conjunct2, THEN conjunct1, rule_format,
      OF s3 s4]
  note e = u [THEN conjunct2, THEN conjunct2, THEN conjunct2, THEN conjunct2, THEN conjunct2,
      THEN conjunct2, THEN conjunct1, rule_format, OF h1 s2 d]
  have r2: "boto3_unavailable ''sqs'' = Inl (OtherException ''You must specify a region.'')"
    by (simp add: boto3_unavailable_def)
  note v = send_to_sqs_failure_iff_client_error [where p = "import_module env_queue"
      and boto3_client = boto3_unavailable and event = event_ab and ctx = "()" and net = "[]"]
  note f = v [THEN conjunct2, THEN conjunct2, THEN conjunct2, THEN conjunct2, THEN conjunct2,
      THEN conjunct2, THEN conjunct2, rule_format, OF h1 r2]
  note lits = queue_configured parse_event_ab dumps_ab append_Nil
  show ?thesis
    using h1 h2 h3 c a b s2 s3 s4 d e r2 f unfolding lits
    by (intro conjI)
qed

section \<open>Inputs the handler reads\<close>

text \<open>
  C8. Two events with the same \<^verbatim>\<open>queryStringParameters\<close> entry, whatever their other
  entries and whatever the two context objects, give the same payload, and under the same
  process state, client factory and network \<^verbatim>\<open>handler\<close> gives the same result and makes
  the same request.
\<close>

theorem handler_reads_query_parameters_only:
  assumes "map_of event1 ''queryStringParameters'' = map_of event2 ''queryStringParameters''"
  shows "parse_query_parameters event1 = parse_query_parameters event2 \<and>
         handler p boto3_client event1 ctx1 net = handler p boto3_client event2 ctx2 net"
proof -
  from assms have q: "parse_query_parameters event1 = parse_query_parameters event2"
    by (simp add: parse_query_parameters_lookup)
  have "handler p boto3_client event1 ctx1 net = handler p boto3_client event2 ctx2 net"
    unfolding handler_def q by (rule refl)
  with q show ?thesis
    by (rule conjI)
qed

theorem handler_reads_query_parameters_only_witness:
  "map_of event_ab ''queryStringParameters'' = map_of event_ab_post ''queryStringParameters'' \<and>
   event_ab \<noteq> event_ab_post \<and>
   parse_query_parameters event_ab = parse_query_parameters event_ab_post \<and>
   handler (import_module env_queue) (boto3_with rejecting_client) event_ab () [] =
     handler (import_module env_queue) (boto3_with rejecting_client) event_ab_post True []"
proof -
  have h: "map_of event_ab ''queryStringParameters'' =
           map_of event_ab_post ''queryStringParameters''"
    by (simp add: event_ab_def event_ab_post_def)
  have d: "event_ab \<noteq> event_ab_post"
    by (simp add: event_ab_def event_ab_post_def)
  show ?thesis
    using h d handler_reads_query_parameters_only [where p = "import_module env_queue"
        and boto3_client = "boto3_with rejecting_client" and ?ctx1.0 = "()" and ?ctx2.0 = True
        and net = "[]", OF h]
    by simp
qed

section \<open>The disabled send function\<close>

text \<open>
  C9. \<^verbatim>\<open>send_to_sqs_temp\<close> returns success with the fixed identifier \<^verbatim>\<open>MessageId\<close> and
  no error for every client, address and message, and leaves the network untouched.
  \<^verbatim>\<open>handler\<close> does not go through it. Whenever \<^verbatim>\<open>handler\<close> sends, its effect on the
  network is that of \<^verbatim>\<open>send_to_sqs\<close> and differs from that of the stub, and its result
  follows the outcome of \<^verbatim>\<open>send_to_sqs\<close>: the exception when there is one, the 200
  response on success, and on failure the 500 response with the error of
  \<^verbatim>\<open>send_to_sqs\<close>, which is not the response that the stub's constant success would give.
\<close>

theorem send_to_sqs_temp_is_unused_stub:
  "send_to_sqs_temp client queue_url message net = (Inr (True, PStr ''MessageId'', PNone), net) \<and>
   (sqs_queue_url (Config_new p) \<noteq> [] \<longrightarrow> boto3_client ''sqs'' = Inr client' \<longrightarrow>
      snd (handler p boto3_client event ctx net') =
        snd (send_to_sqs client' (sqs_queue_url (Config_new p))
               (parse_query_parameters event) net') \<and>
      snd (handler p boto3_client event ctx net') \<noteq>
        snd (send_to_sqs_temp client' (sqs_queue_url (Config_new p))
               (parse_query_parameters event) net') \<and>
      (\<forall>x. fst (send_to_sqs client' (sqs_queue_url (Config_new p))
                  (parse_query_parameters event) net') = Inl x \<longrightarrow>
           fst (handler p boto3_client event ctx net') = Inl x) \<and>
      (\<forall>message_id error.
           fst (send_to_sqs client' (sqs_queue_url (Config_new p))
                  (parse_query_parameters event) net') = Inr (True, message_id, error) \<longrightarrow>
           fst (handler p boto3_client event ctx net') =
             Inr (create_response 200 (PDict [(''message'', PStr success_message)]))) \<and>
      (\<forall>message_id error.
           fst (send_to_sqs client' (sqs_queue_url (Config_new p))
                  (parse_query_parameters event) net') = Inr (False, message_id, error) \<longrightarrow>
           fst (handler p boto3_client event ctx net') =
             Inr (create_response 500 (PDict [(''message'', error)])) \<and>
           fst (handler p boto3_client event ctx net') \<noteq>
             Inr (create_response 200 (PDict [(''message'', PStr success_message)]))))"
proof (intro conjI impI allI)
  show "send_to_sqs_temp client queue_url message net =
      (Inr (True, PStr ''MessageId'', PNone), net)"
    by (simp add: send_to_sqs_temp_def)
next
  assume a: "sqs_queue_url (Config_new p) \<noteq> []" "boto3_client ''sqs'' = Inr client'"
  show "snd (handler p boto3_client event ctx net') =
        snd (send_to_sqs client' (sqs_queue_url (Config_new p))
               (parse_query_parameters event) net')"
    by (simp add: handler_network [where boto3_client = boto3_client, OF a] send_to_sqs_network)
  show "snd (handler p boto3_client event ctx net') \<noteq>
        snd (send_to_sqs_temp client' (sqs_queue_url (Config_new p))
               (parse_query_parameters event) net')"
    by (simp add: handler_network [where boto3_client = boto3_client, OF a] send_to_sqs_temp_def)
next
  fix x
  assume a: "sqs_queue_url (Config_new p) \<noteq> []" "boto3_client ''sqs'' = Inr client'"
    and "fst (send_to_sqs client' (sqs_queue_url (Config_new p))
                  (parse_query_parameters event) net') = Inl x"
  then show "fst (handler p boto3_client event ctx net') = Inl x"
    by (simp add: handler_outcome [where boto3_client = boto3_client, OF a])
next
  fix message_id error
  assume a: "sqs_queue_url (Config_new p) \<noteq> []" "boto3_client ''sqs'' = Inr client'"
    and "fst (send_to_sqs client' (sqs_queue_url (Config_new p))
                  (parse_query_parameters event) net') = Inr (True, message_id, error)"
  then show "fst (handler p boto3_client event ctx net') =
             Inr (create_response 200 (PDict [(''message'', PStr success_message)]))"
    by (simp add: handler_outcome [where boto3_client = boto3_client, OF a])
next
  fix message_id error
  assume a: "sqs_queue_url (Config_new p) \<noteq> []" "boto3_client ''sqs'' = Inr client'"
    and f: "fst (send_to_sqs client' (sqs_queue_url (Config_new p))
                  (parse_query_parameters event) net') = Inr (False, message_id, error)"
  then show h: "fst (handler p boto3_client event ctx net') =
             Inr (create_response 500 (PDict [(''message'', error)]))"
    by (simp add: handler_outcome [where boto3_client = boto3_client, OF a])
  show "fst (handler p boto3_client event ctx net') \<noteq>
             Inr (create_response 200 (PDict [(''message'', PStr success_message)]))"
    unfolding h by (simp add: create_response_def del: json_dumps.simps)
qed

theorem send_to_sqs_temp_is_unused_stub_witness:
  \<open>sqs_queue_url (Config_new (import_module env_queue)) \<noteq> [] \<and>
   boto3_with rejecting_client ''sqs'' = Inr rejecting_client \<and>
   send_to_sqs_temp rejecting_client ''https://sqs.example/bridge''
       (PDict [(''a'', PStr ''1''), (''b'', PStr ''2'')]) [] =
     (Inr (True, PStr ''MessageId'', PNone), []) \<and>
   snd (handler (import_module env_queue) (boto3_with rejecting_client) event_ab () []) =
     [(''https://sqs.example/bridge'', ''{"a": "1", "b": "2"}'')] \<and>
   snd (handler (import_module env_queue) (boto3_with rejecting_client) event_ab () []) \<noteq>
     snd (send_to_sqs_temp rejecting_client ''https://sqs.example/bridge''
            (PDict [(''a'', PStr ''1''), (''b'', PStr ''2'')]) []) \<and>
   fst (send_to_sqs rejecting_client ''https://sqs.example/bridge''
          (PDict [(''a'', PStr ''1''), (''b'', PStr ''2'')]) []) =
     Inr (False, PNone, PStr ''Failed to send message to SQS: An error occurred (AccessDenied) when calling the SendMessage operation: Access to the resource is denied.'') \<and>
   fst (handler (import_module env_queue) (boto3_with rejecting_client) event_ab () []) =
     Inr (PDict [(''statusCode'', PInt 500),
                 (''headers'', PDict [(''Content-Type'', PStr ''application/json'')]),
                 (''body'', PStr ''{"message": "Failed to send message to SQS: An error occurred (AccessDenied) when calling the SendMessage operation: Access to the resource is denied."}'')]) \<and>
   fst (handler (import_module env_queue) (boto3_with rejecting_client) event_ab () []) \<noteq>
     Inr (create_response 200 (PDict [(''message'', PStr success_message)]))\<close>
proof -
  let ?url = "sqs_queue_url (Config_new (import_module env_queue))"
  let ?msg = "parse_query_parameters event_ab"
  let ?err = "PStr (''Failed to send message to SQS: '' @ ''An error occurred (AccessDenied) when calling the SendMessage operation: Access to the resource is denied.'')"
  have h1: "?url \<noteq> []"
    by (simp add: queue_configured)
  have h2: "boto3_with rejecting_client ''sqs'' = Inr rejecting_client"
    by (simp add: boto3_with_def)
  have f: "fst (send_to_sqs rejecting_client ?url ?msg []) = Inr (False, PNone, ?err)"
    unfolding send_to_sqs_cases by (simp add: rejecting_client_def del: json_dumps.simps)
  have body: \<open>json_dumps (PDict [(''message'', ?err)]) = ''{"message": "Failed to send message to SQS: An error occurred (AccessDenied) when calling the SendMessage operation: Access to the resource is denied."}''\<close>
    by (simp add: encode_str_def escape_char_def)
  note t = send_to_sqs_temp_is_unused_stub [where client = rejecting_client
      and queue_url = ?url and message = ?msg and net = "[]"
      and p = "import_module env_queue" and boto3_client = "boto3_with rejecting_client"
      and client' = rejecting_client and event = event_ab and ctx = "()" and net' = "[]"]
  note st = t [THEN conjunct1]
  note t2 = t [THEN conjunct2, THEN mp, OF h1, THEN mp, OF h2]
  note m = t2 [THEN conjunct1]
  note n = t2 [THEN conjunct2, THEN conjunct1]
  note g = t2 [THEN conjunct2, THEN conjunct2, THEN conjunct2, THEN conjunct2, rule_format, OF f]
  have m': "snd (handler (import_module env_queue) (boto3_with rejecting_client) event_ab () []) =
      [(?url, json_dumps ?msg)]"
    unfolding m send_to_sqs_network by simp
  have g': "fst (handler (import_module env_queue) (boto3_with rejecting_client) event_ab () []) =
     Inr (PDict [(''statusCode'', PInt 500),
                 (''headers'', PDict [(''Content-Type'', PStr ''application/json'')]),
                 (''body'', PStr (json_dumps (PDict [(''message'', ?err)])))])"
    unfolding g [THEN conjunct1] create_response_def by (rule refl)
  have f': "fst (send_to_sqs rejecting_client ?url ?msg []) =
     Inr (False, PNone, PStr ''Failed to send message to SQS: An error occurred (AccessDenied) when calling the SendMessage operation: Access to the resource is denied.'')"
    unfolding f by simp
  note lits = queue_configured parse_event_ab dumps_ab
  show ?thesis
    using h1 h2 st m' n f' g' [unfolded body] g [THEN conjunct2] unfolding lits
    by (intro conjI)
qed

section \<open>Falsy query parameters\<close>

text \<open>
  C10. For every event whose \<^verbatim>\<open>queryStringParameters\<close> entry is present with a falsy
  value (\<^verbatim>\<open>None\<close>, an empty container or string, zero, \<^verbatim>\<open>False\<close>),
  \<^verbatim>\<open>parse_query_parameters\<close> returns the empty dictionary, not \<^verbatim>\<open>None\<close>, and the
  text \<^verbatim>\<open>handler\<close> forwards is \<^verbatim>\<open>{}\<close>.
\<close>

theorem falsy_query_parameters_payload:
  assumes "map_of event ''queryStringParameters'' = Some v"
    and "\<not> truthy v"
  shows "parse_query_parameters event = PDict [] \<and>
         parse_query_parameters event \<noteq> PNone \<and>
         (sqs_queue_url (Config_new p) \<noteq> [] \<longrightarrow> boto3_client ''sqs'' = Inr client \<longrightarrow>
            snd (handler p boto3_client event ctx net) =
              net @ [(sqs_queue_url (Config_new p), ''{}'')])"
proof -
  from assms have e: "parse_query_parameters event = PDict []"
    by (simp add: parse_query_parameters_lookup)
  then show ?thesis
    by (simp add: handler_network)
qed

theorem falsy_query_parameters_payload_witness:
  "map_of event_null ''queryStringParameters'' = Some PNone \<and>
   \<not> truthy PNone \<and>
   parse_query_parameters event_null = PDict [] \<and>
   snd (handler (import_module env_queue) (boto3_with accepting_client) event_null () []) =
     [(''https://sqs.example/bridge'', ''{}'')]"
proof -
  have h1: "map_of event_null ''queryStringParameters'' = Some PNone"
    by (simp add: event_null_def)
  have h2: "\<not> truthy PNone"
    by simp
  have b: "boto3_with accepting_client ''sqs'' = Inr accepting_client"
    by (simp add: boto3_with_def)
  show ?thesis
    using h1 falsy_query_parameters_payload [where boto3_client = "boto3_with accepting_client"
        and p = "import_module env_queue" and client = accepting_client and ctx = "()"
        and net = "[]", OF h1 h2] b
    by (simp add: queue_configured)
qed

end
